theory Spec2Isabelle
  imports Main
begin

section \<open>The status reporter script \<^verbatim>\<open>examples/pepseption/hello.py\<close>\<close>

text \<open>
  The script has three executable lines:
  \<^verbatim>\<open>
  response = requests.get("https://api.github.com")
  print(f"GitHub API Status: {response.status_code}")
  print(f"Rate Limit: {response.headers.get('X-RateLimit-Remaining', 'N/A')}")
  \<close>
  It is embedded as a sequence of three steps over an explicit process state (the
  requests handed to the network, standard output, the error stream). A step either
  returns a value or raises; the network call is the only step that can raise, and what
  it returns or raises is the one parameter of the model.
\<close>

subsection \<open>Python values and their formatting\<close>

abbreviation LF :: char where
  "LF \<equiv> CHR 0x0A"

definition digit :: "nat \<Rightarrow> char" where
  "digit d = char_of (48 + d)"

text \<open>\<^verbatim>\<open>str(n)\<close> of a non-negative integer: its decimal digits, most significant first.\<close>

fun str_nat :: "nat \<Rightarrow> string" where
  "str_nat n = (if n < 10 then [digit n] else str_nat (n div 10) @ [digit (n mod 10)])"

declare str_nat.simps [simp del]

text \<open>\<^verbatim>\<open>str(i)\<close> of a Python integer (unbounded): a minus sign for a negative one.\<close>

definition str_int :: "int \<Rightarrow> string" where
  "str_int i = (if i < 0 then CHR ''-'' # str_nat (nat (- i)) else str_nat (nat i))"

text \<open>
  The values the two replacement fields hold: \<^verbatim>\<open>response.status_code\<close> is an integer,
  the result of \<^verbatim>\<open>headers.get\<close> a string. A replacement field \<^verbatim>\<open>{x}\<close> of an f-string
  with no format specification is \<^verbatim>\<open>format(x, "")\<close>: the decimal numeral of an integer, a
  string as it is.
\<close>

datatype py_value = PyInt int | PyStr string

fun format_value :: "py_value \<Rightarrow> string" where
  "format_value (PyInt i) = str_int i"
| "format_value (PyStr s) = s"

subsection \<open>The response and its header mapping\<close>

text \<open>
  \<^verbatim>\<open>str.lower\<close> on the characters a \<^typ>\<open>char\<close> holds (code points below 256): the
  letters A to Z and the upper-case letters of Latin-1 move up by 32.
\<close>

definition lower_char :: "char \<Rightarrow> char" where
  "lower_char c =
     (let n = (of_char c :: nat)
      in if (65 \<le> n \<and> n \<le> 90) \<or> (192 \<le> n \<and> n \<le> 222 \<and> n \<noteq> 215)
         then char_of (n + 32) else c)"

definition lower :: "string \<Rightarrow> string" where
  "lower s = map lower_char s"

text \<open>
  Modelled from the spec: the header mapping of a response is an object of the HTTP
  client library, whose code is not part of this repository. The spec's data model
  takes it as a mapping of header names to header values whose lookup is
  case-insensitive. The model is the library's case-insensitive dictionary: a store
  keyed by the lower-cased header name, holding the name as it was set and the value;
  \<open>setitem\<close> is \<^verbatim>\<open>d[key] = value\<close>, \<open>getitem\<close> is \<^verbatim>\<open>d[key]\<close>, which raises KeyError on an
  absent name, and \<open>get\<close> is \<^verbatim>\<open>d.get(key, default)\<close>, which returns the default where
  \<^verbatim>\<open>d[key]\<close> raises.
\<close>

type_synonym case_insensitive_dict = "string \<rightharpoonup> string \<times> string"

datatype key_error = KeyError string

definition setitem :: "case_insensitive_dict \<Rightarrow> string \<Rightarrow> string \<Rightarrow> case_insensitive_dict" where
  "setitem d key v = d(lower key \<mapsto> (key, v))"

definition getitem :: "case_insensitive_dict \<Rightarrow> string \<Rightarrow> key_error + string" where
  "getitem d key = (case d (lower key) of None \<Rightarrow> Inl (KeyError key) | Some (k, v) \<Rightarrow> Inr v)"

definition get :: "case_insensitive_dict \<Rightarrow> string \<Rightarrow> string \<Rightarrow> string" where
  "get d key dflt = (case getitem d key of Inl e \<Rightarrow> dflt | Inr v \<Rightarrow> v)"

record response =
  status_code :: int
  headers :: case_insensitive_dict

subsection \<open>The request and the network\<close>

datatype verb = GET | OPTIONS | HEAD | POST | PUT | PATCH | DELETE

text \<open>
  What a call of the HTTP client hands to the network: the verb, the URL, and the
  optional arguments of the call (query parameters, body, request headers of the
  caller's own, credentials), \<open>None\<close> where the call does not pass one.
\<close>

record request =
  verb :: verb
  url :: string
  params :: "(string \<times> string) list option"
  data :: "string option"
  custom_headers :: "(string \<times> string) list option"
  auth :: "(string \<times> string) option"

text \<open>\<^verbatim>\<open>requests.get(url)\<close>: the verb is GET, the URL is the argument, nothing else is passed.\<close>

definition get_request :: "string \<Rightarrow> request" where
  "get_request u =
     \<lparr>verb = GET, url = u, params = None, data = None, custom_headers = None, auth = None\<rparr>"

text \<open>
  The failures the network call raises: the client's exception classes for a refused or
  unresolvable connection (a DNS failure is a connection error), a timeout while
  connecting or reading, a TLS failure, and a response that cannot be read.
\<close>

datatype request_exception =
  ConnectionError
  | ConnectTimeout
  | ReadTimeout
  | SSLError
  | TooManyRedirects
  | ChunkedEncodingError
  | ContentDecodingError
  | InvalidHeader

text \<open>The network is the parameter of the model: its answer to a request.\<close>

type_synonym network = "request \<Rightarrow> request_exception + response"

subsection \<open>The process: steps that return or raise\<close>

text \<open>What the interpreter writes to the error stream for an exception nobody caught.\<close>

datatype diagnostic = Traceback request_exception

record process =
  sent :: "request list"
  stdout :: string
  stderr :: "diagnostic list"

definition initial :: process where
  "initial = \<lparr>sent = [], stdout = [], stderr = []\<rparr>"

type_synonym 'a step = "process \<Rightarrow> (request_exception + 'a) \<times> process"

text \<open>Sequencing: an exception of the first step skips the rest.\<close>

definition bind :: "'a step \<Rightarrow> ('a \<Rightarrow> 'b step) \<Rightarrow> 'b step" where
  "bind m f p = (case m p of (Inl e, p') \<Rightarrow> (Inl e, p') | (Inr x, p') \<Rightarrow> f x p')"

text \<open>
  \<^verbatim>\<open>requests.get(u)\<close>: the request goes out, the call blocks, and the network's answer is
  the result or the exception.
\<close>

definition requests_get :: "network \<Rightarrow> string \<Rightarrow> response step" where
  "requests_get net u p = (net (get_request u), p\<lparr>sent := sent p @ [get_request u]\<rparr>)"

text \<open>\<^verbatim>\<open>print(s)\<close>: the string and a line feed, appended to standard output.\<close>

definition print :: "string \<Rightarrow> unit step" where
  "print s p = (Inr (), p\<lparr>stdout := stdout p @ s @ [LF]\<rparr>)"

text \<open>The module body, statement by statement.\<close>

definition module :: "network \<Rightarrow> unit step" where
  "module net =
     bind (requests_get net ''https://api.github.com'') (\<lambda>response.
     bind (print (''GitHub API Status: '' @ format_value (PyInt (status_code response)))) (\<lambda>_.
     print (''Rate Limit: '' @
       format_value (PyStr (get (headers response) ''X-RateLimit-Remaining'' ''N/A'')))))"

text \<open>
  Running the script: the interpreter executes the module body in a fresh process. When
  the body ends, the exit code is 0; when an exception leaves it, the interpreter reports
  the exception on the error stream and the exit code is 1.
\<close>

definition main :: "network \<Rightarrow> process \<times> int" where
  "main net =
     (case module net initial of
        (Inl e, p) \<Rightarrow> (p\<lparr>stderr := stderr p @ [Traceback e]\<rparr>, 1)
      | (Inr u, p) \<Rightarrow> (p, 0))"

subsection \<open>The client library between the call and the wire\<close>

text \<open>
  What happens between a call of the client and the wire is the HTTP client library's
  work. Its code is not part of this repository and the spec does not describe it; the
  definitions of this subsection follow the library's defaults for a call that passes
  nothing but the URL. A response is a redirect when it holds a Location header and its
  status code is 301, 302, 303, 307 or 308. A redirect is not returned to the caller: the
  client sends the request again to the location (taken here as an absolute URL), at
  most 30 times for one call, and raises \<open>TooManyRedirects\<close> at the redirect after that.
  \<open>send n wire q\<close> is the answer the caller gets and the requests that went out, in
  order, when \<open>n\<close> redirects may still be followed; \<open>client wire\<close> is the network the
  script sees over the wire \<open>wire\<close>; \<open>outbound wire\<close> are the requests a run of the script
  puts on that wire.
\<close>

definition is_redirect :: "response \<Rightarrow> bool" where
  "is_redirect r =
     ((case getitem (headers r) ''location'' of Inl e \<Rightarrow> False | Inr v \<Rightarrow> True) \<and>
      (status_code r = 301 \<or> status_code r = 302 \<or> status_code r = 303 \<or>
       status_code r = 307 \<or> status_code r = 308))"

fun send :: "nat \<Rightarrow> network \<Rightarrow> request \<Rightarrow> (request_exception + response) \<times> request list" where
  "send n wire q =
     (case wire q of
        Inl e \<Rightarrow> (Inl e, [q])
      | Inr r \<Rightarrow>
          if is_redirect r
          then (case n of
                  0 \<Rightarrow> (Inl TooManyRedirects, [q])
                | Suc m \<Rightarrow>
                    (case send m wire (q\<lparr>url := get (headers r) ''location'' []\<rparr>) of
                       (res, qs) \<Rightarrow> (res, q # qs)))
          else (Inr r, [q]))"

declare send.simps [simp del]

definition client :: "network \<Rightarrow> network" where
  "client wire q = fst (send 30 wire q)"

definition outbound :: "network \<Rightarrow> request list" where
  "outbound wire = concat (map (\<lambda>q. snd (send 30 wire q)) (sent (fst (main (client wire)))))"

subsection \<open>Lines of standard output\<close>

text \<open>
  The lines a text consists of: each line feed ends a line; characters after the last
  line feed are a last, unterminated line.
\<close>

fun split_lines :: "string \<Rightarrow> string \<Rightarrow> string list" where
  "split_lines cur [] = (if cur = [] then [] else [cur])"
| "split_lines cur (c # cs) =
     (if c = LF then cur # split_lines [] cs else split_lines (cur @ [c]) cs)"

definition lines_of :: "string \<Rightarrow> string list" where
  "lines_of s = split_lines [] s"

section \<open>Evaluation and auxiliary facts\<close>

text \<open>
  Numerals and names the statements below use, evaluated; the decimal numeral of an
  integer holds no line feed; what a run of the script leaves behind when the network
  call returns and when it raises; and how a text that ends each of two line-feed-free
  pieces with a line feed splits into lines.
\<close>

lemma lower_name: "lower ''X-RateLimit-Remaining'' = ''x-ratelimit-remaining''"
  by code_simp

lemma str_int_200: "str_int 200 = ''200''"
  by code_simp

lemma digit_not_LF: "d < 10 \<Longrightarrow> digit d \<noteq> LF"
proof
  assume d: "d < 10" and eq: "digit d = LF"
  from eq have "(of_char (digit d) :: nat) = of_char LF" by simp
  with d show False by (simp add: digit_def)
qed

lemma str_nat_no_LF: "LF \<notin> set (str_nat n)"
proof (induction n rule: str_nat.induct)
  case (1 n)
  show ?case
  proof (cases "n < 10")
    case True
    then show ?thesis using digit_not_LF [of n] by (subst str_nat.simps) simp
  next
    case False
    then show ?thesis using 1 digit_not_LF [of "n mod 10"]
      by (subst str_nat.simps) simp
  qed
qed

lemma str_int_no_LF: "LF \<notin> set (str_int i)"
  by (simp add: str_int_def str_nat_no_LF)

lemma status_line_no_LF: "LF \<notin> set (''GitHub API Status: '' @ str_int i)"
  by (simp add: str_int_no_LF)

lemma main_success:
  assumes "net (get_request ''https://api.github.com'') = Inr r"
  shows "main net =
    (\<lparr>sent = [get_request ''https://api.github.com''],
      stdout = ''GitHub API Status: '' @ str_int (status_code r) @ [LF] @
               ''Rate Limit: '' @ get (headers r) ''X-RateLimit-Remaining'' ''N/A'' @ [LF],
      stderr = []\<rparr>, 0)"
  using assms by (simp add: main_def module_def bind_def requests_get_def print_def initial_def)

lemma main_failure:
  assumes "net (get_request ''https://api.github.com'') = Inl e"
  shows "main net =
    (\<lparr>sent = [get_request ''https://api.github.com''], stdout = [], stderr = [Traceback e]\<rparr>, 1)"
  using assms by (simp add: main_def module_def bind_def requests_get_def initial_def)

lemma get_store:
  "get d key dflt = (case d (lower key) of None \<Rightarrow> dflt | Some (k, v) \<Rightarrow> v)"
  by (simp add: get_def getitem_def split: option.splits)

lemma split_lines_line:
  "LF \<notin> set a \<Longrightarrow> split_lines cur (a @ LF # rest) = (cur @ a) # split_lines [] rest"
  by (induction a arbitrary: cur) auto

lemma lines_of_two:
  assumes "LF \<notin> set a" and "LF \<notin> set b"
  shows "lines_of (a @ [LF] @ b @ [LF]) = [a, b]"
  using split_lines_line [OF assms(1), of "[]" "b @ [LF]"] split_lines_line [OF assms(2), of "[]" "[]"]
  by (simp add: lines_of_def)

lemma stdout_two_lines:
  assumes "net (get_request ''https://api.github.com'') = Inr r"
    and "LF \<notin> set (get (headers r) ''X-RateLimit-Remaining'' ''N/A'')"
  shows "lines_of (stdout (fst (main net))) =
    [''GitHub API Status: '' @ str_int (status_code r),
     ''Rate Limit: '' @ get (headers r) ''X-RateLimit-Remaining'' ''N/A'']"
proof -
  have a: "LF \<notin> set (''GitHub API Status: '' @ str_int (status_code r))"
    by (rule status_line_no_LF)
  have b: "LF \<notin> set (''Rate Limit: '' @ get (headers r) ''X-RateLimit-Remaining'' ''N/A'')"
    using assms(2) by simp
  show ?thesis
    using lines_of_two [OF a b] by (simp add: main_success [of net r, OF assms(1)])
qed

lemma str_int_403: "str_int 403 = ''403''"
  by code_simp

lemma str_int_304: "str_int 304 = ''304''"
  by code_simp

lemma str_int_500: "str_int 500 = ''500''"
  by code_simp

section \<open>The claims\<close>

text \<open>
  Claim C1 (happy path). When the GET to the fixed endpoint returns a response with
  status code 200 whose header mapping holds the value \<open>42\<close> for X-RateLimit-Remaining,
  standard output is exactly the line \<open>GitHub API Status: 200\<close> followed by the line
  \<open>Rate Limit: 42\<close>, each ended by a line feed, in that order and nothing else.
\<close>

theorem happy_path:
  assumes "net (get_request ''https://api.github.com'') = Inr r"
    and "status_code r = 200"
    and "headers r (lower ''X-RateLimit-Remaining'') = Some (k, ''42'')"
  shows "stdout (fst (main net)) = ''GitHub API Status: 200'' @ [LF] @ ''Rate Limit: 42'' @ [LF]
    \<and> lines_of (stdout (fst (main net))) = [''GitHub API Status: 200'', ''Rate Limit: 42'']"
proof -
  have v: "get (headers r) ''X-RateLimit-Remaining'' ''N/A'' = ''42''"
    using assms(3) by (simp add: get_store)
  have out: "stdout (fst (main net)) = ''GitHub API Status: 200'' @ [LF] @ ''Rate Limit: 42'' @ [LF]"
    by (simp add: main_success [of net r, OF assms(1)] v assms(2) str_int_200)
  have "lines_of (stdout (fst (main net))) = [''GitHub API Status: 200'', ''Rate Limit: 42'']"
    using stdout_two_lines [of net r, OF assms(1)] by (simp add: v assms(2) str_int_200)
  with out show ?thesis by simp
qed

theorem happy_path_witness:
  "stdout (fst (main (\<lambda>q. Inr \<lparr>status_code = 200,
      headers = setitem Map.empty ''X-RateLimit-Remaining'' ''42''\<rparr>))) =
     ''GitHub API Status: 200'' @ [LF] @ ''Rate Limit: 42'' @ [LF]
   \<and> lines_of (stdout (fst (main (\<lambda>q. Inr \<lparr>status_code = 200,
      headers = setitem Map.empty ''X-RateLimit-Remaining'' ''42''\<rparr>)))) =
     [''GitHub API Status: 200'', ''Rate Limit: 42'']"
  by (rule happy_path [where net = "\<lambda>q. Inr \<lparr>status_code = 200,
      headers = setitem Map.empty ''X-RateLimit-Remaining'' ''42''\<rparr>" and k = "''X-RateLimit-Remaining''"])
    (simp, simp, simp add: setitem_def)

text \<open>
  Claim C2 (missing header). For every response whose header mapping holds nothing for
  X-RateLimit-Remaining, the second line of standard output is exactly
  \<open>Rate Limit: N/A\<close>, and the first line still reports the status code of the response.
\<close>

theorem missing_header:
  assumes "net (get_request ''https://api.github.com'') = Inr r"
    and "headers r (lower ''X-RateLimit-Remaining'') = None"
  shows "stdout (fst (main net)) =
      ''GitHub API Status: '' @ str_int (status_code r) @ [LF] @ ''Rate Limit: N/A'' @ [LF]
    \<and> lines_of (stdout (fst (main net))) =
      [''GitHub API Status: '' @ str_int (status_code r), ''Rate Limit: N/A'']"
proof -
  have v: "get (headers r) ''X-RateLimit-Remaining'' ''N/A'' = ''N/A''"
    using assms(2) by (simp add: get_store)
  have "stdout (fst (main net)) =
      ''GitHub API Status: '' @ str_int (status_code r) @ [LF] @ ''Rate Limit: N/A'' @ [LF]"
    by (simp add: main_success [of net r, OF assms(1)] v)
  moreover have "lines_of (stdout (fst (main net))) =
      [''GitHub API Status: '' @ str_int (status_code r), ''Rate Limit: N/A'']"
    using stdout_two_lines [of net r, OF assms(1)] by (simp add: v)
  ultimately show ?thesis by simp
qed

theorem missing_header_witness:
  "stdout (fst (main (\<lambda>q. Inr \<lparr>status_code = 200,
      headers = setitem Map.empty ''Content-Type'' ''application/json''\<rparr>))) =
     ''GitHub API Status: 200'' @ [LF] @ ''Rate Limit: N/A'' @ [LF]
   \<and> lines_of (stdout (fst (main (\<lambda>q. Inr \<lparr>status_code = 200,
      headers = setitem Map.empty ''Content-Type'' ''application/json''\<rparr>)))) =
     [''GitHub API Status: 200'', ''Rate Limit: N/A'']"
proof -
  let ?r = "\<lparr>status_code = 200,
      headers = setitem Map.empty ''Content-Type'' ''application/json''\<rparr>"
  have answer: "(\<lambda>q. Inr ?r) (get_request ''https://api.github.com'') = Inr ?r"
    by simp
  have "setitem Map.empty ''Content-Type'' ''application/json''
      (lower ''X-RateLimit-Remaining'') = None"
    by code_simp
  then have absent: "headers ?r (lower ''X-RateLimit-Remaining'') = None"
    by simp
  note w = missing_header [of "\<lambda>q. Inr ?r" ?r, OF answer absent]
  from w [THEN conjunct1] w [THEN conjunct2] show ?thesis
    by (simp add: str_int_200)
qed

text \<open>
  Claim C3 (failure atomicity). Whenever the network call raises, the exception is not
  caught: no print runs, standard output stays empty (no line at all), the exception
  that was raised is the one reported on the error stream, and the exit code is 1, which
  is not zero.
\<close>

theorem failure_atomicity:
  assumes "net (get_request ''https://api.github.com'') = Inl e"
  shows "stdout (fst (main net)) = []
    \<and> lines_of (stdout (fst (main net))) = []
    \<and> stderr (fst (main net)) = [Traceback e]
    \<and> snd (main net) = 1"
  by (simp add: main_failure [of net e, OF assms] lines_of_def)

theorem failure_atomicity_witness:
  "stdout (fst (main (\<lambda>q. Inl ConnectionError))) = []
    \<and> lines_of (stdout (fst (main (\<lambda>q. Inl ConnectionError)))) = []
    \<and> stderr (fst (main (\<lambda>q. Inl ConnectionError))) = [Traceback ConnectionError]
    \<and> snd (main (\<lambda>q. Inl ConnectionError)) = 1"
  using failure_atomicity [where net = "\<lambda>q. Inl ConnectionError" and e = ConnectionError]
  by (simp add: lines_of_def)

text \<open>
  Claim C4 (no special case for a status other than 200). For every response whose
  status code is not 200, standard output is \<open>GitHub API Status: \<close> followed by the
  decimal numeral of that status code, and then the rate-limit line, which holds the
  header value where the header is present and \<open>N/A\<close> where it is absent; the
  rate-limit line is character for character the one printed for the response with the
  same headers and status code 200.
\<close>

theorem non_200_status:
  assumes "net (get_request ''https://api.github.com'') = Inr r"
    and "status_code r \<noteq> 200"
    and "net' (get_request ''https://api.github.com'') = Inr (r\<lparr>status_code := 200\<rparr>)"
  shows "stdout (fst (main net)) =
      ''GitHub API Status: '' @ str_int (status_code r) @ [LF] @
      ''Rate Limit: '' @
        (case headers r (lower ''X-RateLimit-Remaining'') of None \<Rightarrow> ''N/A'' | Some (k, v) \<Rightarrow> v) @ [LF]
    \<and> stdout (fst (main net')) =
      ''GitHub API Status: 200'' @ [LF] @
      ''Rate Limit: '' @
        (case headers r (lower ''X-RateLimit-Remaining'') of None \<Rightarrow> ''N/A'' | Some (k, v) \<Rightarrow> v) @ [LF]"
  by (simp add: main_success [of net r, OF assms(1)]
      main_success [of net' "r\<lparr>status_code := 200\<rparr>", OF assms(3)] get_store str_int_200)

theorem non_200_status_witness:
  "stdout (fst (main (\<lambda>q. Inr \<lparr>status_code = 403,
      headers = setitem Map.empty ''X-RateLimit-Remaining'' ''0''\<rparr>))) =
     ''GitHub API Status: 403'' @ [LF] @ ''Rate Limit: 0'' @ [LF]
   \<and> stdout (fst (main (\<lambda>q. Inr \<lparr>status_code = 200,
      headers = setitem Map.empty ''X-RateLimit-Remaining'' ''0''\<rparr>))) =
     ''GitHub API Status: 200'' @ [LF] @ ''Rate Limit: 0'' @ [LF]"
  using non_200_status [where net = "\<lambda>q. Inr \<lparr>status_code = 403,
        headers = setitem Map.empty ''X-RateLimit-Remaining'' ''0''\<rparr>"
      and r = "\<lparr>status_code = 403,
        headers = setitem Map.empty ''X-RateLimit-Remaining'' ''0''\<rparr>"
      and net' = "\<lambda>q. Inr \<lparr>status_code = 200,
        headers = setitem Map.empty ''X-RateLimit-Remaining'' ''0''\<rparr>"]
  by (simp add: setitem_def str_int_403)

text \<open>
  Claim C5 (output shape), as amended. Whenever the network call returns a response,
  standard output is exactly \<open>GitHub API Status: \<close>, the status code and a line feed,
  followed by \<open>Rate Limit: \<close>, the header value or the placeholder and a line feed:
  two prints, the status first, each embedding one dynamic value. These are exactly two
  lines whenever the printed header value holds no line feed.
\<close>

theorem output_shape:
  assumes "net (get_request ''https://api.github.com'') = Inr r"
  shows "stdout (fst (main net)) =
      ''GitHub API Status: '' @ str_int (status_code r) @ [LF] @
      ''Rate Limit: '' @ get (headers r) ''X-RateLimit-Remaining'' ''N/A'' @ [LF]
    \<and> (LF \<notin> set (get (headers r) ''X-RateLimit-Remaining'' ''N/A'') \<longrightarrow>
       lines_of (stdout (fst (main net))) =
         [''GitHub API Status: '' @ str_int (status_code r),
          ''Rate Limit: '' @ get (headers r) ''X-RateLimit-Remaining'' ''N/A''])"
proof (rule conjI)
  show "stdout (fst (main net)) =
      ''GitHub API Status: '' @ str_int (status_code r) @ [LF] @
      ''Rate Limit: '' @ get (headers r) ''X-RateLimit-Remaining'' ''N/A'' @ [LF]"
    by (simp add: main_success [of net r, OF assms])
next
  show "LF \<notin> set (get (headers r) ''X-RateLimit-Remaining'' ''N/A'') \<longrightarrow>
       lines_of (stdout (fst (main net))) =
         [''GitHub API Status: '' @ str_int (status_code r),
          ''Rate Limit: '' @ get (headers r) ''X-RateLimit-Remaining'' ''N/A'']"
    using stdout_two_lines [of net r, OF assms] by blast
qed

theorem output_shape_witness:
  "stdout (fst (main (\<lambda>q. Inr \<lparr>status_code = 304,
      headers = setitem Map.empty ''x-ratelimit-remaining'' ''59''\<rparr>))) =
     ''GitHub API Status: 304'' @ [LF] @ ''Rate Limit: 59'' @ [LF]
   \<and> LF \<notin> set ''59''
   \<and> lines_of (stdout (fst (main (\<lambda>q. Inr \<lparr>status_code = 304,
      headers = setitem Map.empty ''x-ratelimit-remaining'' ''59''\<rparr>)))) =
     [''GitHub API Status: 304'', ''Rate Limit: 59'']"
proof -
  let ?r = "\<lparr>status_code = 304,
      headers = setitem Map.empty ''x-ratelimit-remaining'' ''59''\<rparr>"
  have answer: "(\<lambda>q. Inr ?r) (get_request ''https://api.github.com'') = Inr ?r"
    by simp
  have v: "get (setitem Map.empty ''x-ratelimit-remaining'' ''59'')
      ''X-RateLimit-Remaining'' ''N/A'' = ''59''"
    by code_simp
  have clean: "LF \<notin> set ''59''"
    by simp
  note w = output_shape [of "\<lambda>q. Inr ?r" ?r, OF answer]
  have "stdout (fst (main (\<lambda>q. Inr ?r))) =
      ''GitHub API Status: 304'' @ [LF] @ ''Rate Limit: 59'' @ [LF]"
    using w [THEN conjunct1] by (simp add: v str_int_304)
  moreover have "lines_of (stdout (fst (main (\<lambda>q. Inr ?r)))) =
      [''GitHub API Status: 304'', ''Rate Limit: 59'']"
    using w [THEN conjunct2] clean by (simp add: v str_int_304)
  ultimately show ?thesis using clean by blast
qed

text \<open>
  Without that condition the count of lines is not two: the header value is printed as
  it is, so a value holding a line feed (here \<open>4\<close>, line feed, \<open>2\<close>) makes the output
  three lines long.
\<close>

theorem output_shape_counterexample:
  "lines_of (stdout (fst (main (\<lambda>q. Inr \<lparr>status_code = 200,
      headers = setitem Map.empty ''X-RateLimit-Remaining'' (''4'' @ [LF] @ ''2'')\<rparr>)))) =
     [''GitHub API Status: 200'', ''Rate Limit: 4'', ''2'']
   \<and> length (lines_of (stdout (fst (main (\<lambda>q. Inr \<lparr>status_code = 200,
      headers = setitem Map.empty ''X-RateLimit-Remaining'' (''4'' @ [LF] @ ''2'')\<rparr>))))) = 3"
  by code_simp

text \<open>
  Claim C6 (request constancy), as amended. Whatever the network answers, a run of the
  script makes exactly one call of the HTTP client: a GET of the fixed URL
  \<open>https://api.github.com\<close>, whose scheme is https and which holds no query string,
  and the call passes no query parameters, no body, no request headers and no
  credentials. The script reads no argument, configuration or environment variable, so
  the network's answer is the only thing a run depends on, and the call does not depend
  on it. The statement is about the call; how many requests the client library puts on
  the wire for it, and what the library adds to them, is not part of it.
\<close>

theorem request_constancy:
  "sent (fst (main net)) =
     [\<lparr>verb = GET, url = ''https://api.github.com'', params = None, data = None,
       custom_headers = None, auth = None\<rparr>]
   \<and> take 8 (url (get_request ''https://api.github.com'')) = ''https://''
   \<and> CHR ''?'' \<notin> set (url (get_request ''https://api.github.com''))"
proof (cases "net (get_request ''https://api.github.com'')")
  case (Inl e)
  then show ?thesis
    by (simp add: main_failure [of net e] get_request_def)
next
  case (Inr r)
  then show ?thesis
    by (simp add: main_success [of net r] get_request_def)
qed

theorem request_constancy_witness:
  "sent (fst (main (\<lambda>q. Inl ReadTimeout))) =
     [\<lparr>verb = GET, url = ''https://api.github.com'', params = None, data = None,
       custom_headers = None, auth = None\<rparr>]
   \<and> sent (fst (main (\<lambda>q. Inr \<lparr>status_code = 200, headers = Map.empty\<rparr>))) =
     [\<lparr>verb = GET, url = ''https://api.github.com'', params = None, data = None,
       custom_headers = None, auth = None\<rparr>]"
  using request_constancy [of "\<lambda>q. Inl ReadTimeout", THEN conjunct1]
    request_constancy [of "\<lambda>q. Inr \<lparr>status_code = 200, headers = Map.empty\<rparr>", THEN conjunct1]
  by (rule conjI)

text \<open>
  Read as a statement about the requests that go out on the wire, the claim fails: the
  script calls the client with its defaults, and the client follows redirects. Against
  an endpoint that answers the fixed URL with 301 and a Location header, the one call of
  the script puts two requests on the wire, the second to another URL.
\<close>

theorem outbound_requests_counterexample:
  "map url (outbound (\<lambda>q. if url q = ''https://api.github.com''
      then Inr \<lparr>status_code = 301,
        headers = setitem Map.empty ''Location'' ''https://api.github.com/''\<rparr>
      else Inr \<lparr>status_code = 200, headers = Map.empty\<rparr>)) =
     [''https://api.github.com'', ''https://api.github.com/'']
   \<and> length (outbound (\<lambda>q. if url q = ''https://api.github.com''
      then Inr \<lparr>status_code = 301,
        headers = setitem Map.empty ''Location'' ''https://api.github.com/''\<rparr>
      else Inr \<lparr>status_code = 200, headers = Map.empty\<rparr>)) = 2
   \<and> length (sent (fst (main (client (\<lambda>q. if url q = ''https://api.github.com''
      then Inr \<lparr>status_code = 301,
        headers = setitem Map.empty ''Location'' ''https://api.github.com/''\<rparr>
      else Inr \<lparr>status_code = 200, headers = Map.empty\<rparr>))))) = 1"
  by code_simp

text \<open>
  Claim C7 (determinism across runs). Two runs, each in a fresh process and against a
  network of its own, that receive responses with the same status code and the same
  header mapping write the same standard output.
\<close>

theorem determinism:
  assumes "net1 (get_request ''https://api.github.com'') = Inr r1"
    and "net2 (get_request ''https://api.github.com'') = Inr r2"
    and "status_code r1 = status_code r2"
    and "headers r1 = headers r2"
  shows "stdout (fst (main net1)) = stdout (fst (main net2))"
  by (simp add: main_success [of net1 r1, OF assms(1)] main_success [of net2 r2, OF assms(2)]
      assms(3) assms(4))

theorem determinism_witness:
  "stdout (fst (main (\<lambda>q. Inr \<lparr>status_code = 200,
      headers = setitem Map.empty ''X-RateLimit-Remaining'' ''42''\<rparr>))) =
   stdout (fst (main (\<lambda>q. if verb q = GET
      then Inr \<lparr>status_code = 200,
        headers = setitem (setitem Map.empty ''X-RateLimit-Remaining'' ''17'')
          ''X-RateLimit-Remaining'' ''42''\<rparr>
      else Inl ConnectionError)))"
proof -
  let ?r1 = "\<lparr>status_code = 200,
      headers = setitem Map.empty ''X-RateLimit-Remaining'' ''42''\<rparr>"
  let ?r2 = "\<lparr>status_code = 200,
      headers = setitem (setitem Map.empty ''X-RateLimit-Remaining'' ''17'')
          ''X-RateLimit-Remaining'' ''42''\<rparr>"
  have a1: "(\<lambda>q. Inr ?r1) (get_request ''https://api.github.com'') = Inr ?r1"
    by simp
  have a2: "(\<lambda>q. if verb q = GET then Inr ?r2 else Inl ConnectionError)
      (get_request ''https://api.github.com'') = Inr ?r2"
    by (simp add: get_request_def)
  have same_status: "status_code ?r1 = status_code ?r2"
    by simp
  have same_headers: "headers ?r1 = headers ?r2"
    by (simp add: setitem_def)
  show ?thesis
    using determinism [of "\<lambda>q. Inr ?r1" ?r1
        "\<lambda>q. if verb q = GET then Inr ?r2 else Inl ConnectionError" ?r2]
      a1 a2 same_status same_headers
    by blast
qed

text \<open>
  Claim C8 (case-insensitive header lookup). For every response whose header mapping
  holds the rate-limit header under a name \<open>k\<close> that equals X-RateLimit-Remaining up to
  the case of its letters, the lookup of X-RateLimit-Remaining returns the value held
  under \<open>k\<close>, and that value, not the placeholder, is what the second print writes.
\<close>

theorem case_insensitive_lookup:
  assumes "net (get_request ''https://api.github.com'') = Inr r"
    and "lower k = lower ''X-RateLimit-Remaining''"
    and "headers r (lower k) = Some (k, v)"
  shows "get (headers r) ''X-RateLimit-Remaining'' ''N/A'' = v
    \<and> stdout (fst (main net)) =
      ''GitHub API Status: '' @ str_int (status_code r) @ [LF] @ ''Rate Limit: '' @ v @ [LF]"
proof -
  have "headers r (lower ''X-RateLimit-Remaining'') = Some (k, v)"
    using assms(2) assms(3) by simp
  then have v: "get (headers r) ''X-RateLimit-Remaining'' ''N/A'' = v"
    by (simp add: get_store)
  then show ?thesis
    by (simp add: main_success [of net r, OF assms(1)])
qed

theorem case_insensitive_lookup_witness:
  "stdout (fst (main (\<lambda>q. Inr \<lparr>status_code = 200,
      headers = setitem Map.empty ''x-ratelimit-remaining'' ''57''\<rparr>))) =
     ''GitHub API Status: 200'' @ [LF] @ ''Rate Limit: 57'' @ [LF]
   \<and> stdout (fst (main (\<lambda>q. Inr \<lparr>status_code = 200,
      headers = setitem Map.empty ''X-RATELIMIT-REMAINING'' ''57''\<rparr>))) =
     ''GitHub API Status: 200'' @ [LF] @ ''Rate Limit: 57'' @ [LF]"
proof -
  let ?lo = "\<lparr>status_code = 200,
      headers = setitem Map.empty ''x-ratelimit-remaining'' ''57''\<rparr>"
  let ?up = "\<lparr>status_code = 200,
      headers = setitem Map.empty ''X-RATELIMIT-REMAINING'' ''57''\<rparr>"
  have lo_name: "lower ''x-ratelimit-remaining'' = lower ''X-RateLimit-Remaining''"
    by code_simp
  have up_name: "lower ''X-RATELIMIT-REMAINING'' = lower ''X-RateLimit-Remaining''"
    by code_simp
  have lo_answer: "(\<lambda>q. Inr ?lo) (get_request ''https://api.github.com'') = Inr ?lo"
    by simp
  have up_answer: "(\<lambda>q. Inr ?up) (get_request ''https://api.github.com'') = Inr ?up"
    by simp
  have lo_held: "headers ?lo (lower ''x-ratelimit-remaining'') =
      Some (''x-ratelimit-remaining'', ''57'')"
    by (simp add: setitem_def)
  have up_held: "headers ?up (lower ''X-RATELIMIT-REMAINING'') =
      Some (''X-RATELIMIT-REMAINING'', ''57'')"
    by (simp add: setitem_def)
  have "stdout (fst (main (\<lambda>q. Inr ?lo))) =
      ''GitHub API Status: 200'' @ [LF] @ ''Rate Limit: 57'' @ [LF]"
    using case_insensitive_lookup [of "\<lambda>q. Inr ?lo" ?lo "''x-ratelimit-remaining''" "''57''",
        OF lo_answer lo_name lo_held, THEN conjunct2]
    by (simp add: str_int_200)
  moreover have "stdout (fst (main (\<lambda>q. Inr ?up))) =
      ''GitHub API Status: 200'' @ [LF] @ ''Rate Limit: 57'' @ [LF]"
    using case_insensitive_lookup [of "\<lambda>q. Inr ?up" ?up "''X-RATELIMIT-REMAINING''" "''57''",
        OF up_answer up_name up_held, THEN conjunct2]
    by (simp add: str_int_200)
  ultimately show ?thesis by (rule conjI)
qed

text \<open>
  Claim C9 (the placeholder only for an absent header). Whenever the header mapping
  holds a value for X-RateLimit-Remaining, that value is printed as it is, whatever it
  is: for the empty string the second line is \<open>Rate Limit: \<close> with nothing after the
  blank, not the placeholder.
\<close>

theorem present_value_verbatim:
  assumes "net (get_request ''https://api.github.com'') = Inr r"
    and "headers r (lower ''X-RateLimit-Remaining'') = Some (k, v)"
  shows "stdout (fst (main net)) =
      ''GitHub API Status: '' @ str_int (status_code r) @ [LF] @ ''Rate Limit: '' @ v @ [LF]
    \<and> (LF \<notin> set v \<longrightarrow> lines_of (stdout (fst (main net))) =
      [''GitHub API Status: '' @ str_int (status_code r), ''Rate Limit: '' @ v])"
proof -
  have v: "get (headers r) ''X-RateLimit-Remaining'' ''N/A'' = v"
    using assms(2) by (simp add: get_store)
  have "stdout (fst (main net)) =
      ''GitHub API Status: '' @ str_int (status_code r) @ [LF] @ ''Rate Limit: '' @ v @ [LF]"
    by (simp add: main_success [of net r, OF assms(1)] v)
  moreover have "LF \<notin> set v \<longrightarrow> lines_of (stdout (fst (main net))) =
      [''GitHub API Status: '' @ str_int (status_code r), ''Rate Limit: '' @ v]"
    using stdout_two_lines [of net r, OF assms(1)] by (simp add: v)
  ultimately show ?thesis by (rule conjI)
qed

theorem present_value_verbatim_witness:
  "stdout (fst (main (\<lambda>q. Inr \<lparr>status_code = 200,
      headers = setitem Map.empty ''X-RateLimit-Remaining'' ''''\<rparr>))) =
     ''GitHub API Status: 200'' @ [LF] @ ''Rate Limit: '' @ [LF]
   \<and> lines_of (stdout (fst (main (\<lambda>q. Inr \<lparr>status_code = 200,
      headers = setitem Map.empty ''X-RateLimit-Remaining'' ''''\<rparr>)))) =
     [''GitHub API Status: 200'', ''Rate Limit: '']"
proof -
  let ?r = "\<lparr>status_code = 200,
      headers = setitem Map.empty ''X-RateLimit-Remaining'' ''''\<rparr>"
  have answer: "(\<lambda>q. Inr ?r) (get_request ''https://api.github.com'') = Inr ?r"
    by simp
  have held: "headers ?r (lower ''X-RateLimit-Remaining'') =
      Some (''X-RateLimit-Remaining'', '''')"
    by (simp add: setitem_def)
  note w = present_value_verbatim [of "\<lambda>q. Inr ?r" ?r "''X-RateLimit-Remaining''" "''''",
      OF answer held]
  have "stdout (fst (main (\<lambda>q. Inr ?r))) =
      ''GitHub API Status: 200'' @ [LF] @ ''Rate Limit: '' @ [LF]"
    using w [THEN conjunct1] by (simp add: str_int_200)
  moreover have "lines_of (stdout (fst (main (\<lambda>q. Inr ?r)))) =
      [''GitHub API Status: 200'', ''Rate Limit: '']"
    using w [THEN conjunct2] by (simp add: str_int_200)
  ultimately show ?thesis by (rule conjI)
qed

text \<open>
  Claim C10 (an HTTP error status is not an error of the script). Whenever a response
  is received, whatever its status code, both prints run, nothing is reported on the
  error stream and the exit code is 0.
\<close>

theorem error_status_exits_zero:
  assumes "net (get_request ''https://api.github.com'') = Inr r"
  shows "snd (main net) = 0
    \<and> stderr (fst (main net)) = []
    \<and> stdout (fst (main net)) =
      ''GitHub API Status: '' @ str_int (status_code r) @ [LF] @
      ''Rate Limit: '' @ get (headers r) ''X-RateLimit-Remaining'' ''N/A'' @ [LF]"
  by (simp add: main_success [of net r, OF assms])

theorem error_status_exits_zero_witness:
  "snd (main (\<lambda>q. Inr \<lparr>status_code = 500, headers = Map.empty\<rparr>)) = 0
   \<and> stderr (fst (main (\<lambda>q. Inr \<lparr>status_code = 500, headers = Map.empty\<rparr>))) = []
   \<and> stdout (fst (main (\<lambda>q. Inr \<lparr>status_code = 500, headers = Map.empty\<rparr>))) =
     ''GitHub API Status: 500'' @ [LF] @ ''Rate Limit: N/A'' @ [LF]"
proof -
  let ?r = "\<lparr>status_code = 500, headers = Map.empty\<rparr>"
  have answer: "(\<lambda>q. Inr ?r) (get_request ''https://api.github.com'') = Inr ?r"
    by simp
  have v: "get Map.empty ''X-RateLimit-Remaining'' ''N/A'' = ''N/A''"
    by (simp add: get_store)
  note w = error_status_exits_zero [of "\<lambda>q. Inr ?r" ?r, OF answer]
  from w [THEN conjunct1] w [THEN conjunct2, THEN conjunct1] w [THEN conjunct2, THEN conjunct2]
  show ?thesis
    by (simp add: v str_int_500)
qed

end
